theory Spec2Isabelle
  imports Complex_Main
begin

section \<open>Time values\<close>

text \<open>
  Modelled from the spec: the class \<open>rational\<close> (with \<open>rational::NaN\<close>, its arithmetic and
  comparison operators) and the macros \<open>RATIONAL_MIN\<close>, \<open>RATIONAL_MAX\<close> are declared in
  headers that are not part of \<open>clip.cpp\<close>. The spec describes times as exact rationals,
  with a not-a-number value and two reserved module-level min/max constants that the
  mapping functions detect by equality. A time is therefore an exact rational or \<open>NaN\<close>;
  arithmetic with \<open>NaN\<close> gives \<open>NaN\<close>, every ordering comparison with \<open>NaN\<close> is false,
  and \<open>==\<close> is equality of these values.
\<close>

datatype rational = Rational rat | NaN

fun rational_add :: "rational \<Rightarrow> rational \<Rightarrow> rational" where
  "rational_add (Rational a) (Rational b) = Rational (a + b)"
| "rational_add _ _ = NaN"

fun rational_sub :: "rational \<Rightarrow> rational \<Rightarrow> rational" where
  "rational_sub (Rational a) (Rational b) = Rational (a - b)"
| "rational_sub _ _ = NaN"

fun rational_less :: "rational \<Rightarrow> rational \<Rightarrow> bool" where
  "rational_less (Rational a) (Rational b) = (a < b)"
| "rational_less _ _ = False"

definition rational_le :: "rational \<Rightarrow> rational \<Rightarrow> bool" where
  "rational_le a b = (rational_less a b \<or> a = b)"

fun isNaN :: "rational \<Rightarrow> bool" where
  "isNaN NaN = True"
| "isNaN (Rational _) = False"

text \<open>
  Modelled from the spec: the two sentinel macros. The spec gives them no numeric value,
  only that they are two reserved constants of the time type; the extreme values of a
  signed 64-bit numerator stand for them here. Of the numbers chosen, the general
  theorems below use only that the minimum is not above the maximum.
\<close>

definition RATIONAL_MIN :: rational where
  "RATIONAL_MIN = Rational (- 9223372036854775808)"

definition RATIONAL_MAX :: rational where
  "RATIONAL_MAX = Rational 9223372036854775807"

subsection \<open>Doubles\<close>

text \<open>
  The speed is a C++ \<open>double\<close>, read here as a real number. \<open>qIsNull\<close> and
  \<open>qFuzzyCompare\<close> are the Qt helpers: the first tests for zero, the second is
  \<open>qAbs(p1 - p2) * 1000000000000. <= qMin(qAbs(p1), qAbs(p2))\<close>.
  The conversions \<open>rational::toDouble\<close> and \<open>rational::fromDouble\<close> round; they are
  declared outside \<open>clip.cpp\<close> and are taken as parameters, so that nothing is assumed
  about their rounding.
\<close>

definition qIsNull :: "real \<Rightarrow> bool" where
  "qIsNull d = (d = 0)"

definition qFuzzyCompare :: "real \<Rightarrow> real \<Rightarrow> bool" where
  "qFuzzyCompare p1 p2 = (\<bar>p1 - p2\<bar> * 1000000000000 \<le> min \<bar>p1\<bar> \<bar>p2\<bar>)"

record double_ops =
  toDouble :: "rational \<Rightarrow> real"
  fromDouble :: "real \<Rightarrow> rational"

section \<open>Time ranges\<close>

text \<open>
  Modelled from the spec: the class \<open>TimeRange\<close> is declared outside \<open>clip.cpp\<close>. The spec
  gives a half-open interval \<open>[in, out)\<close> with the invariant \<open>in <= out\<close> that supports
  intersection; its second end-to-end scenario fixes that a range constructed from
  endpoints in decreasing order has them exchanged. The intersection of two ranges is
  the set intersection, which the spec allows to be empty; an empty intersection is the
  empty range at the larger of the two in points.
\<close>

record time_range =
  range_in :: rational
  range_out :: rational

definition TimeRange :: "rational \<Rightarrow> rational \<Rightarrow> time_range" where
  "TimeRange a b =
     (if rational_less b a then \<lparr>range_in = b, range_out = a\<rparr>
      else \<lparr>range_in = a, range_out = b\<rparr>)"

definition qMax :: "rational \<Rightarrow> rational \<Rightarrow> rational" where
  "qMax a b = (if rational_less a b then b else a)"

definition qMin :: "rational \<Rightarrow> rational \<Rightarrow> rational" where
  "qMin a b = (if rational_less a b then a else b)"

definition Intersected :: "time_range \<Rightarrow> time_range \<Rightarrow> time_range" where
  "Intersected r a =
     (let i = qMax (range_in r) (range_in a);
          out = qMin (range_out r) (range_out a)
      in if rational_less out i then \<lparr>range_in = i, range_out = i\<rparr>
         else \<lparr>range_in = i, range_out = out\<rparr>)"

text \<open>The times a half-open range covers.\<close>

definition covers :: "time_range \<Rightarrow> rational \<Rightarrow> bool" where
  "covers r t = (rational_le (range_in r) t \<and> rational_less t (range_out r))"

section \<open>Caches and the connected node\<close>

text \<open>
  A connected node offers four playback caches. What the clip does to a cache is
  recorded as a list of events, in the order of the calls. \<open>PlaybackCache\<close> itself is
  an external collaborator: its two queries are fields of the cache value, and
  \<open>TimeRangeList::remove\<close> is a parameter of the functions that call it.
\<close>

datatype cache_id = thumbnail_cache | video_frame_cache | waveform_cache | audio_playback_cache

datatype cache_event =
    Invalidate cache_id time_range
  | Request cache_id time_range
  | CancelAll cache_id

record PlaybackCache =
  GetInvalidatedRanges :: "time_range \<Rightarrow> time_range list"
  GetPassthroughs :: "time_range list"

type_synonym node = "cache_id \<Rightarrow> PlaybackCache"

datatype track_type = kNone | kVideo | kAudio | kSubtitle

section \<open>The clip\<close>

text \<open>
  The state of a \<open>ClipBlock\<close> that the functions below read or write: the standard
  values of its inputs, the type of the track that holds it, the node connected to
  \<open>kBufferIn\<close> (if any), whether caches are enabled, and the viewer whose markers it
  listens to.
\<close>

record clip =
  clip_length :: rational
  media_in :: rational
  speed :: real
  reverse :: bool
  IsAutocaching :: bool
  GetTrackType :: track_type
  GetConnectedOutput :: "node option"
  AreCachesEnabled :: bool
  connected_viewer :: "nat option"

definition kBufferIn :: string where
  "kBufferIn = ''buffer_in''"

definition kAutoCacheInput :: string where
  "kAutoCacheInput = ''autocache_in''"

subsection \<open>Mapping between sequence time and media time\<close>

definition SequenceToMediaTime ::
  "double_ops \<Rightarrow> clip \<Rightarrow> rational \<Rightarrow> bool \<Rightarrow> bool \<Rightarrow> rational" where
  "SequenceToMediaTime fp c sequence_time ignore_reverse ignore_speed =
     (if sequence_time = RATIONAL_MIN \<or> sequence_time = RATIONAL_MAX then sequence_time
      else
        let media_time = sequence_time;
            media_time =
              (if reverse c \<and> \<not> ignore_reverse
               then rational_sub (clip_length c) media_time else media_time);
            media_time =
              (if \<not> ignore_speed then
                 (let speed_value = speed c in
                  if qIsNull speed_value then Rational 0
                  else if \<not> qFuzzyCompare speed_value 1
                  then fromDouble fp (toDouble fp media_time * speed_value)
                  else media_time)
               else media_time)
        in rational_add media_time (media_in c))"

definition MediaToSequenceTime :: "double_ops \<Rightarrow> clip \<Rightarrow> rational \<Rightarrow> rational" where
  "MediaToSequenceTime fp c media_time =
     (if media_time = RATIONAL_MIN \<or> media_time = RATIONAL_MAX then media_time
      else
        let sequence_time = rational_sub media_time (media_in c);
            speed_value = speed c;
            sequence_time =
              (if qIsNull speed_value then NaN
               else if \<not> qFuzzyCompare speed_value 1
               then fromDouble fp (toDouble fp sequence_time / speed_value)
               else sequence_time)
        in if reverse c then rational_sub (clip_length c) sequence_time else sequence_time)"

subsection \<open>Time adjustment\<close>

text \<open>
  For any input other than \<open>kBufferIn\<close> the base class answers; it is outside
  \<open>clip.cpp\<close> and hands the time through unchanged here. No statement below uses that
  branch.
\<close>

definition InputTimeAdjustment :: "double_ops \<Rightarrow> clip \<Rightarrow> string \<Rightarrow> time_range \<Rightarrow> time_range" where
  "InputTimeAdjustment fp c input input_time =
     (if input = kBufferIn
      then TimeRange (SequenceToMediaTime fp c (range_in input_time) False False)
                     (SequenceToMediaTime fp c (range_out input_time) False False)
      else input_time)"

definition OutputTimeAdjustment :: "double_ops \<Rightarrow> clip \<Rightarrow> string \<Rightarrow> time_range \<Rightarrow> time_range" where
  "OutputTimeAdjustment fp c input input_time =
     (if input = kBufferIn
      then TimeRange (MediaToSequenceTime fp c (range_in input_time))
                     (MediaToSequenceTime fp c (range_out input_time))
      else input_time)"

subsection \<open>Requests to the caches of the connected node\<close>

definition RequestRangeForCache ::
  "cache_id \<Rightarrow> time_range \<Rightarrow> time_range \<Rightarrow> bool \<Rightarrow> bool \<Rightarrow> cache_event list" where
  "RequestRangeForCache cache max_range rng invalidate request =
     (let r = Intersected rng max_range
      in (if invalidate then [Invalidate cache r] else []) @
         (if request then [Request cache r] else []))"

definition RequestRangeFromConnected :: "double_ops \<Rightarrow> clip \<Rightarrow> time_range \<Rightarrow> cache_event list" where
  "RequestRangeFromConnected fp c rng =
     (let type = GetTrackType c in
      if type = kVideo \<or> type = kAudio then
        (case GetConnectedOutput c of
           None \<Rightarrow> []
         | Some n \<Rightarrow>
             let max_range =
                   InputTimeAdjustment fp c kBufferIn (TimeRange (Rational 0) (clip_length c))
             in if type = kVideo then
                  RequestRangeForCache thumbnail_cache max_range rng True True @
                  RequestRangeForCache video_frame_cache max_range rng True (IsAutocaching c)
                else if type = kAudio then
                  RequestRangeForCache waveform_cache max_range rng True True @
                  RequestRangeForCache audio_playback_cache max_range rng True (IsAutocaching c)
                else [])
      else [])"

text \<open>
  The two loops of \<open>RequestInvalidatedForCache\<close>: the first removes each passthrough
  from the list of invalidated ranges with \<open>TimeRangeList::remove\<close> (the parameter
  \<open>rm\<close>), the second requests each range that is left.
\<close>

fun remove_passthroughs ::
  "(time_range list \<Rightarrow> time_range \<Rightarrow> time_range list) \<Rightarrow> time_range list \<Rightarrow> time_range list
     \<Rightarrow> time_range list" where
  "remove_passthroughs rm invalid [] = invalid"
| "remove_passthroughs rm invalid (p # ps) = remove_passthroughs rm (rm invalid p) ps"

fun request_each :: "cache_id \<Rightarrow> time_range \<Rightarrow> time_range list \<Rightarrow> cache_event list" where
  "request_each cache max_range [] = []"
| "request_each cache max_range (r # rs) =
     RequestRangeForCache cache max_range r False True @ request_each cache max_range rs"

definition RequestInvalidatedForCache ::
  "(time_range list \<Rightarrow> time_range \<Rightarrow> time_range list) \<Rightarrow> cache_id \<Rightarrow> PlaybackCache \<Rightarrow> time_range
     \<Rightarrow> cache_event list" where
  "RequestInvalidatedForCache rm cache pc max_range =
     (let invalid = GetInvalidatedRanges pc max_range;
          invalid = remove_passthroughs rm invalid (GetPassthroughs pc)
      in request_each cache max_range invalid)"

definition RequestInvalidatedFromConnected ::
  "double_ops \<Rightarrow> (time_range list \<Rightarrow> time_range \<Rightarrow> time_range list) \<Rightarrow> clip \<Rightarrow> cache_event list" where
  "RequestInvalidatedFromConnected fp rm c =
     (let type = GetTrackType c in
      if type = kVideo \<or> type = kAudio then
        (case GetConnectedOutput c of
           None \<Rightarrow> []
         | Some n \<Rightarrow>
             let max_range =
                   InputTimeAdjustment fp c kBufferIn (TimeRange (Rational 0) (clip_length c))
             in if type = kVideo then
                  RequestInvalidatedForCache rm thumbnail_cache (n thumbnail_cache) max_range @
                  (if IsAutocaching c
                   then RequestInvalidatedForCache rm video_frame_cache (n video_frame_cache) max_range
                   else [])
                else if type = kAudio then
                  RequestInvalidatedForCache rm waveform_cache (n waveform_cache) max_range @
                  (if IsAutocaching c
                   then RequestInvalidatedForCache rm audio_playback_cache (n audio_playback_cache)
                          max_range
                   else [])
                else [])
      else [])"

subsection \<open>Invalidation arriving at the clip\<close>

text \<open>
  \<open>InvalidateCache\<close> returns what it did: the cache events, the media times it handed to
  \<open>MediaToSequenceTime\<close>, the marker subscriptions it dropped and made (one event stands
  for the three marker signals of a viewer), the range it passes on to the base class
  for downstream propagation, and the clip with its viewer binding updated. The viewers
  that the graph search finds behind \<open>kBufferIn\<close> are the parameter \<open>viewers\<close>.
\<close>

datatype binding_event = DisconnectMarkers nat | ConnectMarkers nat

record invalidate_result =
  cache_events :: "cache_event list"
  inverse_mapped :: "rational list"
  binding_events :: "binding_event list"
  propagated :: time_range
  clip_after :: clip

definition InvalidateCache ::
  "double_ops \<Rightarrow> clip \<Rightarrow> time_range \<Rightarrow> string \<Rightarrow> nat list \<Rightarrow> invalidate_result" where
  "InvalidateCache fp c rng from viewers =
     (if from = kBufferIn then
        let events = (if AreCachesEnabled c then RequestRangeFromConnected fp c rng else []);
            speed_value = speed c;
            (adj, calls) =
              (if qIsNull speed_value then (TimeRange RATIONAL_MIN RATIONAL_MAX, [])
               else (TimeRange (MediaToSequenceTime fp c (range_in rng))
                               (MediaToSequenceTime fp c (range_out rng)),
                     [range_in rng, range_out rng]));
            new_connected_viewer = (case viewers of [] \<Rightarrow> None | v # _ \<Rightarrow> Some v);
            bindings =
              (if new_connected_viewer \<noteq> connected_viewer c then
                 (case connected_viewer c of None \<Rightarrow> [] | Some v \<Rightarrow> [DisconnectMarkers v]) @
                 (case new_connected_viewer of None \<Rightarrow> [] | Some v \<Rightarrow> [ConnectMarkers v])
               else [])
        in \<lparr>cache_events = events, inverse_mapped = calls, binding_events = bindings,
            propagated = adj, clip_after = c\<lparr>connected_viewer := new_connected_viewer\<rparr>\<rparr>
      else
        \<lparr>cache_events = [], inverse_mapped = [], binding_events = [],
         propagated = rng, clip_after = c\<rparr>)"

subsection \<open>Changing the length\<close>

definition set_media_in :: "clip \<Rightarrow> rational \<Rightarrow> clip" where
  "set_media_in c m = c\<lparr>media_in := m\<rparr>"

text \<open>
  Modelled from the spec: the two setters of the base class \<open>Block\<close> are outside
  \<open>clip.cpp\<close>. The spec says that after the adjustment of \<open>media_in\<close> the length change is
  applied; the base setters store the new length.
\<close>

definition Block_set_length_and_media_out :: "clip \<Rightarrow> rational \<Rightarrow> clip" where
  "Block_set_length_and_media_out c len = c\<lparr>clip_length := len\<rparr>"

definition Block_set_length_and_media_in :: "clip \<Rightarrow> rational \<Rightarrow> clip" where
  "Block_set_length_and_media_in c len = c\<lparr>clip_length := len\<rparr>"

definition set_length_and_media_out :: "double_ops \<Rightarrow> clip \<Rightarrow> rational \<Rightarrow> clip" where
  "set_length_and_media_out fp c len =
     (if len = clip_length c then c
      else
        let c1 = (if reverse c then
                    (let proposed_media_in =
                           SequenceToMediaTime fp c (rational_sub (clip_length c) len) True False
                     in set_media_in c proposed_media_in)
                  else c)
        in Block_set_length_and_media_out c1 len)"

definition set_length_and_media_in :: "double_ops \<Rightarrow> clip \<Rightarrow> rational \<Rightarrow> clip" where
  "set_length_and_media_in fp c len =
     (if len = clip_length c then c
      else
        let c1 = (if \<not> reverse c then
                    (let proposed_media_in =
                           SequenceToMediaTime fp c (rational_sub (clip_length c) len) False True
                     in set_media_in c proposed_media_in)
                  else c)
        in Block_set_length_and_media_in c1 len)"

subsection \<open>A changed input value\<close>

text \<open>
  The clip is read after the value of the input has changed. The handler of the base
  class runs first; it is outside \<open>clip.cpp\<close>, the spec gives it no effect on a cache,
  and it contributes no event here.
\<close>

definition InputValueChangedEvent ::
  "double_ops \<Rightarrow> (time_range list \<Rightarrow> time_range \<Rightarrow> time_range list) \<Rightarrow> clip \<Rightarrow> string
     \<Rightarrow> cache_event list" where
  "InputValueChangedEvent fp rm c input =
     (if input = kAutoCacheInput then
        (if IsAutocaching c then RequestInvalidatedFromConnected fp rm c
         else
           let type = GetTrackType c in
           case GetConnectedOutput c of
             None \<Rightarrow> []
           | Some n \<Rightarrow>
               if type = kVideo then [CancelAll video_frame_cache]
               else if type = kAudio then [CancelAll audio_playback_cache]
               else [])
      else [])"

section \<open>Sample inputs\<close>

text \<open>
  Concrete values at which the functions are evaluated below. The sample conversions
  keep six decimal places; the sample cache reports two invalidated ranges, cut to the
  range asked for, and delegates the second one; \<open>sample_remove\<close> stands for
  \<open>TimeRangeList::remove\<close> on these samples and drops the ranges equal to the removed one.
  The reversed connected clip has length 10 and media in 2, so that its two ends have
  the media times 12 and 2.
\<close>

definition sample_double_ops :: double_ops where
  "sample_double_ops =
     \<lparr>toDouble = (\<lambda>t. case t of Rational q \<Rightarrow> of_rat q | NaN \<Rightarrow> 0),
      fromDouble = (\<lambda>d. Rational (of_int \<lfloor>d * 1000000\<rfloor> / 1000000))\<rparr>"

definition sample_clip :: "rational \<Rightarrow> rational \<Rightarrow> real \<Rightarrow> bool \<Rightarrow> clip" where
  "sample_clip len m s rv =
     \<lparr>clip_length = len, media_in = m, speed = s, reverse = rv, IsAutocaching = False,
      GetTrackType = kVideo, GetConnectedOutput = None, AreCachesEnabled = True,
      connected_viewer = None\<rparr>"

definition sample_cache :: PlaybackCache where
  "sample_cache =
     \<lparr>GetInvalidatedRanges = (\<lambda>w. [Intersected (TimeRange (Rational 1) (Rational 3)) w,
                                     Intersected (TimeRange (Rational 5) (Rational 7)) w]),
      GetPassthroughs = [TimeRange (Rational 5) (Rational 7)]\<rparr>"

definition sample_remove :: "time_range list \<Rightarrow> time_range \<Rightarrow> time_range list" where
  "sample_remove rs p = filter (\<lambda>r. r \<noteq> p) rs"

definition connected_clip :: "track_type \<Rightarrow> bool \<Rightarrow> clip" where
  "connected_clip ty ac =
     \<lparr>clip_length = Rational 10, media_in = Rational 0, speed = 1, reverse = False,
      IsAutocaching = ac, GetTrackType = ty, GetConnectedOutput = Some (\<lambda>k. sample_cache),
      AreCachesEnabled = True, connected_viewer = None\<rparr>"

definition reversed_connected_clip :: "bool \<Rightarrow> clip" where
  "reversed_connected_clip ac =
     \<lparr>clip_length = Rational 10, media_in = Rational 2, speed = 1, reverse = True,
      IsAutocaching = ac, GetTrackType = kVideo, GetConnectedOutput = Some (\<lambda>k. sample_cache),
      AreCachesEnabled = True, connected_viewer = None\<rparr>"

definition reversed_window :: time_range where
  "reversed_window = \<lparr>range_in = Rational 2, range_out = Rational 12\<rparr>"

section \<open>Arithmetic of time values\<close>

lemma rational_add_zero_left: "rational_add (Rational 0) m = m"
  by (cases m) simp_all

lemma rational_sub_NaN_right: "rational_sub l NaN = NaN"
  by (cases l) simp_all

lemma rational_add_sub_cancel: "\<not> isNaN m \<Longrightarrow> rational_sub (rational_add t m) m = t"
  by (cases t; cases m) simp_all

lemma rational_sub_sub_cancel: "\<not> isNaN l \<Longrightarrow> rational_sub l (rational_sub l t) = t"
  by (cases t; cases l) simp_all

lemma qFuzzyCompare_one: "qFuzzyCompare 1 1"
  by (simp add: qFuzzyCompare_def)

section \<open>The two mappings\<close>

text \<open>
  C1, as stated, fails, at three inputs of speed 1. A time that is not a sentinel can be
  mapped onto a sentinel: with \<open>media_in = 1\<close>, the sequence time one below
  \<open>RATIONAL_MAX\<close> has the media time \<open>RATIONAL_MAX\<close>, which \<open>MediaToSequenceTime\<close> hands
  back unchanged instead of subtracting \<open>media_in\<close>. And a \<open>media_in\<close> that is not a
  number, or the length of a reversed clip that is not a number, turns the sequence time
  4 into \<open>NaN\<close>.
\<close>

theorem roundtrip_counterexample:
  "Rational 9223372036854775806 \<noteq> RATIONAL_MIN \<and>
   Rational 9223372036854775806 \<noteq> RATIONAL_MAX \<and>
   0 < speed (sample_clip (Rational 10) (Rational 1) 1 False) \<and>
   SequenceToMediaTime sample_double_ops (sample_clip (Rational 10) (Rational 1) 1 False)
     (Rational 9223372036854775806) False False = RATIONAL_MAX \<and>
   MediaToSequenceTime sample_double_ops (sample_clip (Rational 10) (Rational 1) 1 False)
     (SequenceToMediaTime sample_double_ops (sample_clip (Rational 10) (Rational 1) 1 False)
        (Rational 9223372036854775806) False False)
   \<noteq> Rational 9223372036854775806 \<and>
   Rational 4 \<noteq> RATIONAL_MIN \<and> Rational 4 \<noteq> RATIONAL_MAX \<and>
   MediaToSequenceTime sample_double_ops (sample_clip (Rational 10) NaN 1 False)
     (SequenceToMediaTime sample_double_ops (sample_clip (Rational 10) NaN 1 False)
        (Rational 4) False False)
   \<noteq> Rational 4 \<and>
   MediaToSequenceTime sample_double_ops (sample_clip NaN (Rational 3) 1 True)
     (SequenceToMediaTime sample_double_ops (sample_clip NaN (Rational 3) 1 True)
        (Rational 4) False False)
   \<noteq> Rational 4"
  by (simp add: SequenceToMediaTime_def MediaToSequenceTime_def sample_clip_def
      RATIONAL_MIN_def RATIONAL_MAX_def qIsNull_def qFuzzyCompare_def)

text \<open>
  C1, amended. Take a clip of speed above 0 whose media in is a number and, when it is
  reversed, whose length is a number, and a time \<open>t\<close> that is not a sentinel and whose
  media time \<open>SequenceToMediaTime t\<close> is not a sentinel either. Then
  \<open>MediaToSequenceTime (SequenceToMediaTime t) = t\<close> exactly when the speed is 1 (or
  passes \<open>qFuzzyCompare\<close> with 1), for either value of the reverse flag. When the speed
  is another one, the same holds as soon as the conversions of this round trip do not
  round: the time \<open>m\<close> that is scaled (\<open>t\<close>, or \<open>length - t\<close> when reversed) survives
  \<open>toDouble\<close> and \<open>fromDouble\<close>, and so does its product with the speed.
\<close>

theorem roundtrip_without_rounding:
  assumes "0 < speed c"
    and "\<not> isNaN (media_in c)" and "reverse c \<longrightarrow> \<not> isNaN (clip_length c)"
    and "t \<noteq> RATIONAL_MIN" and "t \<noteq> RATIONAL_MAX"
    and "SequenceToMediaTime fp c t False False \<noteq> RATIONAL_MIN"
    and "SequenceToMediaTime fp c t False False \<noteq> RATIONAL_MAX"
    and "m = (if reverse c then rational_sub (clip_length c) t else t)"
    and "qFuzzyCompare (speed c) 1 \<or>
         (fromDouble fp (toDouble fp m) = m \<and>
          toDouble fp (fromDouble fp (toDouble fp m * speed c)) = toDouble fp m * speed c)"
  shows "MediaToSequenceTime fp c (SequenceToMediaTime fp c t False False) = t"
proof -
  let ?s = "speed c"
  let ?m' = "if qFuzzyCompare ?s 1 then m else fromDouble fp (toDouble fp m * ?s)"
  have nz: "\<not> qIsNull ?s" using assms(1) by (simp add: qIsNull_def)
  have s2m: "SequenceToMediaTime fp c t False False = rational_add ?m' (media_in c)"
    using assms(4,5) nz unfolding assms(8)
    by (simp add: SequenceToMediaTime_def Let_def)
  have undo: "rational_sub (rational_add ?m' (media_in c)) (media_in c) = ?m'"
    using assms(2) by (rule rational_add_sub_cancel)
  have unscale: "(if qFuzzyCompare ?s 1 then ?m' else fromDouble fp (toDouble fp ?m' / ?s)) = m"
  proof (cases "qFuzzyCompare ?s 1")
    case True
    then show ?thesis by simp
  next
    case False
    with assms(9) have h2: "fromDouble fp (toDouble fp m) = m"
      and h1: "toDouble fp (fromDouble fp (toDouble fp m * ?s)) = toDouble fp m * ?s"
      by simp_all
    from assms(1) have "toDouble fp m * ?s / ?s = toDouble fp m" by simp
    with False h1 h2 show ?thesis by simp
  qed
  have "MediaToSequenceTime fp c (rational_add ?m' (media_in c)) =
        (if reverse c then rational_sub (clip_length c) m else m)"
  proof -
    have ns: "\<not> (rational_add ?m' (media_in c) = RATIONAL_MIN \<or>
                 rational_add ?m' (media_in c) = RATIONAL_MAX)"
      using assms(6,7) unfolding s2m by simp
    show ?thesis
      unfolding MediaToSequenceTime_def Let_def if_not_P [OF ns] undo if_not_P [OF nz]
      using unscale by (simp del: if_split cong: if_cong split: if_splits)
  qed
  also have "\<dots> = t"
    unfolding assms(8) using assms(3) by (simp add: rational_sub_sub_cancel)
  finally show ?thesis unfolding s2m .
qed

theorem roundtrip_without_rounding_witness:
  "0 < speed (sample_clip (Rational 10) (Rational 3) 2 True) \<and>
   \<not> qFuzzyCompare (speed (sample_clip (Rational 10) (Rational 3) 2 True)) 1 \<and>
   Rational 4 \<noteq> RATIONAL_MIN \<and> Rational 4 \<noteq> RATIONAL_MAX \<and>
   SequenceToMediaTime sample_double_ops (sample_clip (Rational 10) (Rational 3) 2 True)
     (Rational 4) False False = Rational 15 \<and>
   MediaToSequenceTime sample_double_ops (sample_clip (Rational 10) (Rational 3) 2 True)
     (SequenceToMediaTime sample_double_ops (sample_clip (Rational 10) (Rational 3) 2 True)
        (Rational 4) False False) = Rational 4 \<and>
   MediaToSequenceTime sample_double_ops (sample_clip (Rational 10) (Rational 3) 1 True)
     (SequenceToMediaTime sample_double_ops (sample_clip (Rational 10) (Rational 3) 1 True)
        (Rational 4) False False) = Rational 4"
proof -
  have s: "SequenceToMediaTime sample_double_ops (sample_clip (Rational 10) (Rational 3) 2 True)
        (Rational 4) False False = Rational 15"
    by (simp add: SequenceToMediaTime_def sample_clip_def RATIONAL_MIN_def RATIONAL_MAX_def
      qIsNull_def qFuzzyCompare_def sample_double_ops_def)
  have s1: "SequenceToMediaTime sample_double_ops (sample_clip (Rational 10) (Rational 3) 1 True)
        (Rational 4) False False = Rational 9"
    by (simp add: SequenceToMediaTime_def sample_clip_def RATIONAL_MIN_def RATIONAL_MAX_def
      qIsNull_def qFuzzyCompare_def)
  have nf: "\<not> qFuzzyCompare (speed (sample_clip (Rational 10) (Rational 3) 2 True)) 1"
    by (simp add: sample_clip_def qFuzzyCompare_def)
  have two: "MediaToSequenceTime sample_double_ops (sample_clip (Rational 10) (Rational 3) 2 True)
     (SequenceToMediaTime sample_double_ops (sample_clip (Rational 10) (Rational 3) 2 True)
        (Rational 4) False False) = Rational 4"
    using roundtrip_without_rounding [of "sample_clip (Rational 10) (Rational 3) 2 True"
        "Rational 4" sample_double_ops "Rational 6"]
    unfolding s
    by (simp add: sample_clip_def RATIONAL_MIN_def RATIONAL_MAX_def sample_double_ops_def)
  have one: "MediaToSequenceTime sample_double_ops (sample_clip (Rational 10) (Rational 3) 1 True)
     (SequenceToMediaTime sample_double_ops (sample_clip (Rational 10) (Rational 3) 1 True)
        (Rational 4) False False) = Rational 4"
    using roundtrip_without_rounding [of "sample_clip (Rational 10) (Rational 3) 1 True"
        "Rational 4" sample_double_ops "Rational 6"]
    unfolding s1
    by (simp add: sample_clip_def RATIONAL_MIN_def RATIONAL_MAX_def qFuzzyCompare_def)
  from s nf two one show ?thesis
    by (simp add: sample_clip_def RATIONAL_MIN_def RATIONAL_MAX_def)
qed

text \<open>
  C2. The two sentinel times are fixed points of \<open>SequenceToMediaTime\<close>, whatever the two
  ignore flags are, and of \<open>MediaToSequenceTime\<close>, for every clip: no reverse, speed or
  media-in arithmetic is applied to them.
\<close>

theorem sentinels_fixed:
  "SequenceToMediaTime fp c RATIONAL_MIN ir is = RATIONAL_MIN \<and>
   SequenceToMediaTime fp c RATIONAL_MAX ir is = RATIONAL_MAX \<and>
   MediaToSequenceTime fp c RATIONAL_MIN = RATIONAL_MIN \<and>
   MediaToSequenceTime fp c RATIONAL_MAX = RATIONAL_MAX"
  by (simp add: SequenceToMediaTime_def MediaToSequenceTime_def)

theorem sentinels_fixed_witness:
  "SequenceToMediaTime sample_double_ops (sample_clip (Rational 10) (Rational 3) 2 True)
     RATIONAL_MAX False False = RATIONAL_MAX \<and>
   MediaToSequenceTime sample_double_ops (sample_clip (Rational 10) (Rational 3) 2 True)
     RATIONAL_MIN = RATIONAL_MIN"
  using sentinels_fixed [of sample_double_ops "sample_clip (Rational 10) (Rational 3) 2 True"
      False False]
  by simp

text \<open>
  C3. When the speed is zero and \<open>t\<close> is not a sentinel, \<open>SequenceToMediaTime\<close> with both
  ignore flags false gives \<open>media_in\<close>, and \<open>MediaToSequenceTime\<close> gives the not-a-number
  value, for every reverse flag, media in and length.
\<close>

theorem zero_speed_mapping:
  assumes "speed c = 0" and "t \<noteq> RATIONAL_MIN" and "t \<noteq> RATIONAL_MAX"
  shows "SequenceToMediaTime fp c t False False = media_in c \<and>
         MediaToSequenceTime fp c t = NaN"
  using assms
  by (simp add: SequenceToMediaTime_def MediaToSequenceTime_def qIsNull_def
      rational_add_zero_left rational_sub_NaN_right)

theorem zero_speed_mapping_witness:
  "speed (sample_clip (Rational 10) (Rational 3) 0 True) = 0 \<and>
   Rational 4 \<noteq> RATIONAL_MIN \<and> Rational 4 \<noteq> RATIONAL_MAX \<and>
   SequenceToMediaTime sample_double_ops (sample_clip (Rational 10) (Rational 3) 0 True)
     (Rational 4) False False = Rational 3 \<and>
   MediaToSequenceTime sample_double_ops (sample_clip (Rational 10) (Rational 3) 0 True)
     (Rational 4) = NaN"
  using zero_speed_mapping [of "sample_clip (Rational 10) (Rational 3) 0 True" "Rational 4"
      sample_double_ops]
  by (simp add: sample_clip_def RATIONAL_MIN_def RATIONAL_MAX_def)

section \<open>Invalidation from the buffer input\<close>

text \<open>
  C4. For a clip with length 10 s, media in 0, speed 1 and reverse set, a range
  \<open>[2 s, 4 s)\<close> of media time invalidated on the buffer input is passed downstream by
  \<open>InvalidateCache\<close> as the sequence-time range with in point 6 s and out point 8 s.
  The code builds \<open>TimeRange(8 s, 6 s)\<close>; the exchange of the two endpoints is the
  constructor's.
\<close>

theorem reversed_scenario:
  assumes "clip_length c = Rational 10" and "media_in c = Rational 0" and "speed c = 1"
    and "reverse c"
  shows "propagated (InvalidateCache fp c (TimeRange (Rational 2) (Rational 4)) kBufferIn viewers)
         = \<lparr>range_in = Rational 6, range_out = Rational 8\<rparr>"
  using assms
  by (simp add: InvalidateCache_def MediaToSequenceTime_def TimeRange_def qIsNull_def
      qFuzzyCompare_def RATIONAL_MIN_def RATIONAL_MAX_def Let_def)

theorem reversed_scenario_witness:
  "clip_length (sample_clip (Rational 10) (Rational 0) 1 True) = Rational 10 \<and>
   media_in (sample_clip (Rational 10) (Rational 0) 1 True) = Rational 0 \<and>
   speed (sample_clip (Rational 10) (Rational 0) 1 True) = 1 \<and>
   reverse (sample_clip (Rational 10) (Rational 0) 1 True) \<and>
   propagated (InvalidateCache sample_double_ops (sample_clip (Rational 10) (Rational 0) 1 True)
     (TimeRange (Rational 2) (Rational 4)) kBufferIn [])
     = \<lparr>range_in = Rational 6, range_out = Rational 8\<rparr>"
  using reversed_scenario [of "sample_clip (Rational 10) (Rational 0) 1 True" sample_double_ops "[]"]
  by (simp add: sample_clip_def)

text \<open>
  C5. For a clip of speed zero, every media-time range invalidated on the buffer input
  (empty or not) is passed downstream as the whole range from \<open>RATIONAL_MIN\<close> to
  \<open>RATIONAL_MAX\<close>, and \<open>InvalidateCache\<close> hands no time to \<open>MediaToSequenceTime\<close>.
\<close>

theorem zero_speed_invalidates_whole_clip:
  assumes "speed c = 0"
  shows "propagated (InvalidateCache fp c rng kBufferIn viewers)
           = \<lparr>range_in = RATIONAL_MIN, range_out = RATIONAL_MAX\<rparr> \<and>
         inverse_mapped (InvalidateCache fp c rng kBufferIn viewers) = []"
  using assms
  by (simp add: InvalidateCache_def TimeRange_def qIsNull_def RATIONAL_MIN_def RATIONAL_MAX_def
      Let_def)

theorem zero_speed_invalidates_whole_clip_witness:
  "speed (sample_clip (Rational 10) (Rational 0) 0 False) = 0 \<and>
   propagated (InvalidateCache sample_double_ops (sample_clip (Rational 10) (Rational 0) 0 False)
       (TimeRange (Rational 2) (Rational 4)) kBufferIn [])
     = \<lparr>range_in = RATIONAL_MIN, range_out = RATIONAL_MAX\<rparr> \<and>
   inverse_mapped (InvalidateCache sample_double_ops
       (sample_clip (Rational 10) (Rational 0) 0 False)
       (TimeRange (Rational 2) (Rational 4)) kBufferIn []) = []"
  using zero_speed_invalidates_whole_clip [of "sample_clip (Rational 10) (Rational 0) 0 False"
      sample_double_ops "TimeRange (Rational 2) (Rational 4)" "[]"]
  by (simp add: sample_clip_def)

section \<open>Requests stay inside the visible media window\<close>

lemma covers_Intersected:
  assumes "\<not> isNaN (range_in a)" and "\<not> isNaN (range_out a)"
    and "\<not> isNaN (range_in b)" and "\<not> isNaN (range_out b)"
    and "covers (Intersected a b) t"
  shows "covers a t \<and> covers b t"
  using assms
  by (cases "range_in a"; cases "range_in b"; cases "range_out a"; cases "range_out b"; cases t)
     (auto simp: covers_def Intersected_def qMax_def qMin_def rational_le_def Let_def
       split: if_splits)

lemma RequestRangeForCache_events:
  "e \<in> set (RequestRangeForCache k w rng iv rq) \<Longrightarrow>
   e = Invalidate k (Intersected rng w) \<or> e = Request k (Intersected rng w)"
  by (auto simp: RequestRangeForCache_def Let_def split: if_splits)

lemma RequestRangeFromConnected_events:
  "set (RequestRangeFromConnected fp c rng) \<subseteq>
   (\<Union>k. {Invalidate k
              (Intersected rng
                 (InputTimeAdjustment fp c kBufferIn (TimeRange (Rational 0) (clip_length c)))),
            Request k
              (Intersected rng
                 (InputTimeAdjustment fp c kBufferIn (TimeRange (Rational 0) (clip_length c))))})"
proof (cases "GetConnectedOutput c")
  case None
  then have "RequestRangeFromConnected fp c rng = []"
    by (simp add: RequestRangeFromConnected_def Let_def)
  then show ?thesis by simp
next
  case (Some n)
  show ?thesis
    unfolding RequestRangeFromConnected_def Let_def Some option.case
    by (auto dest!: RequestRangeForCache_events)
qed

lemma max_range_eq:
  "InputTimeAdjustment fp c kBufferIn (TimeRange (Rational 0) (clip_length c)) =
   TimeRange
     (SequenceToMediaTime fp c (range_in (TimeRange (Rational 0) (clip_length c))) False False)
     (SequenceToMediaTime fp c (range_out (TimeRange (Rational 0) (clip_length c))) False False)"
  by (simp add: InputTimeAdjustment_def)

lemma reversed_window_eq:
  "TimeRange
     (SequenceToMediaTime sample_double_ops (reversed_connected_clip ac)
        (range_in (TimeRange (Rational 0) (clip_length (reversed_connected_clip ac)))) False False)
     (SequenceToMediaTime sample_double_ops (reversed_connected_clip ac)
        (range_out (TimeRange (Rational 0) (clip_length (reversed_connected_clip ac)))) False False)
   = reversed_window"
  by (simp add: reversed_connected_clip_def TimeRange_def SequenceToMediaTime_def
      RATIONAL_MIN_def RATIONAL_MAX_def qIsNull_def qFuzzyCompare_def reversed_window_def)

lemma reversed_events:
  "RequestRangeFromConnected sample_double_ops (reversed_connected_clip False)
     (TimeRange (Rational 1) (Rational 3)) =
   [Invalidate thumbnail_cache \<lparr>range_in = Rational 2, range_out = Rational 3\<rparr>,
    Request thumbnail_cache \<lparr>range_in = Rational 2, range_out = Rational 3\<rparr>,
    Invalidate video_frame_cache \<lparr>range_in = Rational 2, range_out = Rational 3\<rparr>]"
  unfolding RequestRangeFromConnected_def max_range_eq reversed_window_eq Let_def
  by (simp add: reversed_connected_clip_def RequestRangeForCache_def Intersected_def
      reversed_window_def TimeRange_def qMax_def qMin_def Let_def)

text \<open>
  C6, as stated, fails. The window that the code uses is the half-open range between the
  media times of the two ends of the clip, and that is not the image of \<open>[0, length)\<close>
  under \<open>SequenceToMediaTime\<close> when the clip is reversed. For the reversed clip of
  length 10 and media in 2, the invalidation of \<open>[1, 3)\<close> invalidates \<open>[2, 3)\<close>, which
  covers the media time 2; that is the media time of the sequence time 10 and of no
  sequence time in \<open>[0, 10)\<close>.
\<close>

theorem window_is_not_image_counterexample:
  "Invalidate thumbnail_cache \<lparr>range_in = Rational 2, range_out = Rational 3\<rparr>
     \<in> set (RequestRangeFromConnected sample_double_ops (reversed_connected_clip False)
              (TimeRange (Rational 1) (Rational 3))) \<and>
   covers \<lparr>range_in = Rational 2, range_out = Rational 3\<rparr> (Rational 2) \<and>
   SequenceToMediaTime sample_double_ops (reversed_connected_clip False) (Rational 10)
     False False = Rational 2 \<and>
   \<not> (\<exists>q. 0 \<le> q \<and> q < 10 \<and>
          SequenceToMediaTime sample_double_ops (reversed_connected_clip False) (Rational q)
            False False = Rational 2)"
proof -
  have img: "SequenceToMediaTime sample_double_ops (reversed_connected_clip False) (Rational q)
            False False = Rational (12 - q)" if "0 \<le> q" "q < 10" for q
    using that
    by (simp add: SequenceToMediaTime_def reversed_connected_clip_def RATIONAL_MIN_def
        RATIONAL_MAX_def qIsNull_def qFuzzyCompare_def)
  have "\<not> (\<exists>q. 0 \<le> q \<and> q < 10 \<and>
          SequenceToMediaTime sample_double_ops (reversed_connected_clip False) (Rational q)
            False False = Rational 2)"
    using img by auto
  moreover have "SequenceToMediaTime sample_double_ops (reversed_connected_clip False)
     (Rational 10) False False = Rational 2"
    by (simp add: SequenceToMediaTime_def reversed_connected_clip_def RATIONAL_MIN_def
        RATIONAL_MAX_def qIsNull_def qFuzzyCompare_def)
  moreover have "covers \<lparr>range_in = Rational 2, range_out = Rational 3\<rparr> (Rational 2)"
    by (simp add: covers_def rational_le_def)
  ultimately show ?thesis by (simp add: reversed_events)
qed

text \<open>
  C6, amended. Let \<open>w\<close> be \<open>TimeRange\<close> of the media times that \<open>SequenceToMediaTime\<close>
  (both ignore flags false) gives the in point and the out point of
  \<open>TimeRange(0, length)\<close>, that is of 0 and the length when the length is not negative.
  Every event that \<open>RequestRangeFromConnected\<close> issues for a range \<open>rng\<close> is an
  \<open>Invalidate\<close> or a \<open>Request\<close> on one of the caches, for the range
  \<open>rng.Intersected(w)\<close>. When the endpoints of \<open>rng\<close> and \<open>w\<close> are numbers, every time
  covered by the range of such an event is covered by \<open>rng\<close> and by \<open>w\<close>: no time outside
  \<open>w\<close> is invalidated or requested.
\<close>

theorem requests_within_max_range:
  assumes "e \<in> set (RequestRangeFromConnected fp c rng)"
    and "w = TimeRange
               (SequenceToMediaTime fp c (range_in (TimeRange (Rational 0) (clip_length c)))
                  False False)
               (SequenceToMediaTime fp c (range_out (TimeRange (Rational 0) (clip_length c)))
                  False False)"
  shows "(\<exists>k. e = Invalidate k (Intersected rng w) \<or> e = Request k (Intersected rng w)) \<and>
         (\<forall>k r t. (e = Invalidate k r \<or> e = Request k r) \<and>
                  \<not> isNaN (range_in rng) \<and> \<not> isNaN (range_out rng) \<and>
                  \<not> isNaN (range_in w) \<and> \<not> isNaN (range_out w) \<and> covers r t
                  \<longrightarrow> covers rng t \<and> covers w t)"
proof -
  have shape: "\<exists>k. e = Invalidate k (Intersected rng w) \<or> e = Request k (Intersected rng w)"
    using assms(1) RequestRangeFromConnected_events [of fp c rng]
    unfolding max_range_eq assms(2) by auto
  then obtain k0 where k0: "e = Invalidate k0 (Intersected rng w) \<or>
                            e = Request k0 (Intersected rng w)" ..
  have "covers rng t \<and> covers w t"
    if "e = Invalidate k r \<or> e = Request k r"
      and "\<not> isNaN (range_in rng)" "\<not> isNaN (range_out rng)"
      and "\<not> isNaN (range_in w)" "\<not> isNaN (range_out w)" and "covers r t" for k r t
  proof -
    from k0 that(1) have "r = Intersected rng w" by auto
    with that show ?thesis using covers_Intersected by blast
  qed
  with shape show ?thesis by blast
qed

theorem requests_within_max_range_witness:
  "Invalidate video_frame_cache \<lparr>range_in = Rational 2, range_out = Rational 3\<rparr>
     \<in> set (RequestRangeFromConnected sample_double_ops (reversed_connected_clip False)
              (TimeRange (Rational 1) (Rational 3))) \<and>
   Intersected (TimeRange (Rational 1) (Rational 3)) reversed_window
     = \<lparr>range_in = Rational 2, range_out = Rational 3\<rparr> \<and>
   covers \<lparr>range_in = Rational 2, range_out = Rational 3\<rparr> (Rational 2) \<and>
   covers (TimeRange (Rational 1) (Rational 3)) (Rational 2) \<and>
   covers reversed_window (Rational 2) \<and>
   \<not> covers \<lparr>range_in = Rational 2, range_out = Rational 3\<rparr> (Rational 1)"
proof -
  have mem: "Invalidate video_frame_cache \<lparr>range_in = Rational 2, range_out = Rational 3\<rparr>
     \<in> set (RequestRangeFromConnected sample_double_ops (reversed_connected_clip False)
              (TimeRange (Rational 1) (Rational 3)))"
    by (simp add: reversed_events)
  have num: "\<not> isNaN (range_in (TimeRange (Rational 1) (Rational 3))) \<and>
             \<not> isNaN (range_out (TimeRange (Rational 1) (Rational 3))) \<and>
             \<not> isNaN (range_in reversed_window) \<and> \<not> isNaN (range_out reversed_window)"
    by (simp add: TimeRange_def reversed_window_def)
  have c2: "covers \<lparr>range_in = Rational 2, range_out = Rational 3\<rparr> (Rational 2)"
    by (simp add: covers_def rational_le_def)
  have n1: "\<not> covers \<lparr>range_in = Rational 2, range_out = Rational 3\<rparr> (Rational 1)"
    by (simp add: covers_def rational_le_def)
  have i: "Intersected (TimeRange (Rational 1) (Rational 3)) reversed_window
     = \<lparr>range_in = Rational 2, range_out = Rational 3\<rparr>"
    by (simp add: Intersected_def TimeRange_def reversed_window_def qMax_def qMin_def)
  from requests_within_max_range [OF mem reversed_window_eq [symmetric]] num c2
  have "covers (TimeRange (Rational 1) (Rational 3)) (Rational 2) \<and>
        covers reversed_window (Rational 2)" by blast
  with mem i c2 n1 show ?thesis by simp
qed

section \<open>Switching autocache off\<close>

text \<open>
  C7. For a clip with a node connected to the buffer input, the change of the autocache
  input to off issues \<open>CancelAll\<close> to the video frame cache on a video track, to the audio
  playback cache on an audio track, and nothing on any other track; no \<open>CancelAll\<close> goes
  to the thumbnail or the waveform cache, and no \<open>Invalidate\<close> or \<open>Request\<close> is issued.
\<close>

theorem autocache_off_cancels:
  assumes "GetConnectedOutput c = Some n" and "\<not> IsAutocaching c"
  shows "InputValueChangedEvent fp rm c kAutoCacheInput =
           (if GetTrackType c = kVideo then [CancelAll video_frame_cache]
            else if GetTrackType c = kAudio then [CancelAll audio_playback_cache]
            else []) \<and>
         CancelAll thumbnail_cache \<notin> set (InputValueChangedEvent fp rm c kAutoCacheInput) \<and>
         CancelAll waveform_cache \<notin> set (InputValueChangedEvent fp rm c kAutoCacheInput) \<and>
         (\<forall>k r. Invalidate k r \<notin> set (InputValueChangedEvent fp rm c kAutoCacheInput) \<and>
                Request k r \<notin> set (InputValueChangedEvent fp rm c kAutoCacheInput))"
  using assms by (simp add: InputValueChangedEvent_def Let_def)

theorem autocache_off_cancels_witness:
  "GetConnectedOutput (connected_clip kVideo False) = Some (\<lambda>k. sample_cache) \<and>
   \<not> IsAutocaching (connected_clip kVideo False) \<and>
   InputValueChangedEvent sample_double_ops sample_remove (connected_clip kVideo False)
     kAutoCacheInput = [CancelAll video_frame_cache] \<and>
   InputValueChangedEvent sample_double_ops sample_remove (connected_clip kAudio False)
     kAutoCacheInput = [CancelAll audio_playback_cache]"
  using autocache_off_cancels [of "connected_clip kVideo False" "\<lambda>k. sample_cache"
      sample_double_ops sample_remove]
    autocache_off_cancels [of "connected_clip kAudio False" "\<lambda>k. sample_cache"
      sample_double_ops sample_remove]
  by (simp add: connected_clip_def)

section \<open>The recompute-only sweep\<close>

lemma remove_passthroughs_foldl: "remove_passthroughs rm invalid ps = foldl rm invalid ps"
  by (induction ps arbitrary: invalid) simp_all

lemma request_each_map:
  "request_each k w rs = map (\<lambda>r. Request k (Intersected r w)) rs"
  by (induction rs) (simp_all add: RequestRangeForCache_def)

lemma RequestInvalidatedForCache_map:
  "RequestInvalidatedForCache rm k pc w =
     map (\<lambda>r. Request k (Intersected r w))
       (foldl rm (GetInvalidatedRanges pc w) (GetPassthroughs pc))"
  by (simp add: RequestInvalidatedForCache_def remove_passthroughs_foldl request_each_map)

text \<open>
  C8. Let \<open>w\<close> be the visible media window of a clip with a connected node \<open>n\<close>:
  \<open>TimeRange\<close> of the media times that \<open>SequenceToMediaTime\<close> (both ignore flags false)
  gives the in point and the out point of \<open>TimeRange(0, length)\<close>. For each
  cache \<open>k\<close>, \<open>RequestInvalidatedForCache\<close> asks the cache for its invalidated ranges
  within \<open>w\<close>, removes every passthrough from that list, and issues one \<open>Request\<close> for
  each range \<open>r\<close> that is left, in order, for \<open>r.Intersected(w)\<close>: as many requests as
  ranges left. \<open>RequestInvalidatedFromConnected\<close> does this for the thumbnail cache and,
  when autocaching, the video frame cache on a video track, for the waveform cache and,
  when autocaching, the audio playback cache on an audio track; it issues no
  \<open>Invalidate\<close>.
\<close>

theorem sweep_requests_remaining:
  assumes "GetConnectedOutput c = Some n"
    and "w = TimeRange
               (SequenceToMediaTime fp c (range_in (TimeRange (Rational 0) (clip_length c)))
                  False False)
               (SequenceToMediaTime fp c (range_out (TimeRange (Rational 0) (clip_length c)))
                  False False)"
    and "sweep = (\<lambda>k. map (\<lambda>r. Request k (Intersected r w))
                    (foldl rm (GetInvalidatedRanges (n k) w) (GetPassthroughs (n k))))"
  shows "RequestInvalidatedForCache rm k (n k) w = sweep k \<and>
         length (RequestInvalidatedForCache rm k (n k) w) =
           length (foldl rm (GetInvalidatedRanges (n k) w) (GetPassthroughs (n k))) \<and>
         (\<forall>k' r. Invalidate k' r \<notin> set (RequestInvalidatedFromConnected fp rm c)) \<and>
         RequestInvalidatedFromConnected fp rm c =
           (if GetTrackType c = kVideo
            then sweep thumbnail_cache @ (if IsAutocaching c then sweep video_frame_cache else [])
            else if GetTrackType c = kAudio
            then sweep waveform_cache @ (if IsAutocaching c then sweep audio_playback_cache else [])
            else [])"
proof -
  have whole: "RequestInvalidatedFromConnected fp rm c =
           (if GetTrackType c = kVideo
            then sweep thumbnail_cache @ (if IsAutocaching c then sweep video_frame_cache else [])
            else if GetTrackType c = kAudio
            then sweep waveform_cache @ (if IsAutocaching c then sweep audio_playback_cache else [])
            else [])"
    unfolding RequestInvalidatedFromConnected_def Let_def assms(1) option.case
      RequestInvalidatedForCache_map max_range_eq assms(2) [symmetric] assms(3)
    by simp
  have none: "Invalidate k' r \<notin> set (sweep k'')" for k' r k''
    unfolding assms(3) by auto
  have "\<forall>k' r. Invalidate k' r \<notin> set (RequestInvalidatedFromConnected fp rm c)"
    unfolding whole using none by simp
  moreover have "RequestInvalidatedForCache rm k (n k) w = sweep k"
    unfolding assms(3) by (rule RequestInvalidatedForCache_map)
  moreover have "length (RequestInvalidatedForCache rm k (n k) w) =
           length (foldl rm (GetInvalidatedRanges (n k) w) (GetPassthroughs (n k)))"
    by (simp add: RequestInvalidatedForCache_map)
  ultimately show ?thesis using whole by blast
qed

lemma reversed_remaining:
  "foldl sample_remove (GetInvalidatedRanges sample_cache reversed_window)
     (GetPassthroughs sample_cache) = [\<lparr>range_in = Rational 2, range_out = Rational 3\<rparr>]"
  by (simp add: sample_cache_def reversed_window_def sample_remove_def Intersected_def
      TimeRange_def qMax_def qMin_def)

lemma reversed_cut:
  "Intersected \<lparr>range_in = Rational 2, range_out = Rational 3\<rparr> reversed_window
   = \<lparr>range_in = Rational 2, range_out = Rational 3\<rparr>"
  by (simp add: reversed_window_def Intersected_def qMax_def qMin_def)

theorem sweep_requests_remaining_witness:
  "GetConnectedOutput (reversed_connected_clip True) = Some (\<lambda>k. sample_cache) \<and>
   GetInvalidatedRanges sample_cache reversed_window =
     [\<lparr>range_in = Rational 2, range_out = Rational 3\<rparr>,
      \<lparr>range_in = Rational 5, range_out = Rational 7\<rparr>] \<and>
   GetPassthroughs sample_cache = [\<lparr>range_in = Rational 5, range_out = Rational 7\<rparr>] \<and>
   RequestInvalidatedFromConnected sample_double_ops sample_remove (reversed_connected_clip True) =
     [Request thumbnail_cache \<lparr>range_in = Rational 2, range_out = Rational 3\<rparr>,
      Request video_frame_cache \<lparr>range_in = Rational 2, range_out = Rational 3\<rparr>]"
proof -
  have conn: "GetConnectedOutput (reversed_connected_clip True) = Some (\<lambda>k. sample_cache)"
    by (simp add: reversed_connected_clip_def)
  have inv: "GetInvalidatedRanges sample_cache reversed_window =
     [\<lparr>range_in = Rational 2, range_out = Rational 3\<rparr>,
      \<lparr>range_in = Rational 5, range_out = Rational 7\<rparr>]"
    by (simp add: sample_cache_def reversed_window_def Intersected_def TimeRange_def qMax_def
        qMin_def)
  have pass: "GetPassthroughs sample_cache = [\<lparr>range_in = Rational 5, range_out = Rational 7\<rparr>]"
    by (simp add: sample_cache_def TimeRange_def)
  have ty: "GetTrackType (reversed_connected_clip True) = kVideo"
    "IsAutocaching (reversed_connected_clip True)"
    by (simp_all add: reversed_connected_clip_def)
  from sweep_requests_remaining [OF conn reversed_window_eq [symmetric] refl,
      of sample_remove thumbnail_cache]
  have "RequestInvalidatedFromConnected sample_double_ops sample_remove
          (reversed_connected_clip True) =
     [Request thumbnail_cache \<lparr>range_in = Rational 2, range_out = Rational 3\<rparr>,
      Request video_frame_cache \<lparr>range_in = Rational 2, range_out = Rational 3\<rparr>]"
    by (simp add: ty reversed_remaining reversed_cut)
  with conn inv pass show ?thesis by simp
qed

section \<open>Changing the length\<close>

text \<open>
  C9. When the new length differs from the current one: the out-point setter of a
  reversed clip first sets \<open>media_in\<close> to \<open>SequenceToMediaTime (old length - new length)\<close>
  taken with \<open>ignore_reverse\<close> set (the speed is applied), and the in-point setter of a
  forward clip first sets it to the same time taken with \<open>ignore_speed\<close> set; in the
  opposite reverse configuration \<open>media_in\<close> is left as it is. The new length is stored
  after that, and nothing else changes.
\<close>

theorem trim_adjusts_media_in:
  assumes "len \<noteq> clip_length c"
  shows "set_length_and_media_out fp c len =
           (if reverse c
            then c\<lparr>media_in :=
                     SequenceToMediaTime fp c (rational_sub (clip_length c) len) True False,
                   clip_length := len\<rparr>
            else c\<lparr>clip_length := len\<rparr>) \<and>
         set_length_and_media_in fp c len =
           (if \<not> reverse c
            then c\<lparr>media_in :=
                     SequenceToMediaTime fp c (rational_sub (clip_length c) len) False True,
                   clip_length := len\<rparr>
            else c\<lparr>clip_length := len\<rparr>)"
  using assms
  by (simp add: set_length_and_media_out_def set_length_and_media_in_def set_media_in_def
      Block_set_length_and_media_out_def Block_set_length_and_media_in_def Let_def)

theorem trim_adjusts_media_in_witness:
  "Rational 6 \<noteq> clip_length (sample_clip (Rational 10) (Rational 3) 0 True) \<and>
   set_length_and_media_out sample_double_ops (sample_clip (Rational 10) (Rational 3) 1 True)
     (Rational 6) = sample_clip (Rational 6) (Rational 7) 1 True \<and>
   set_length_and_media_out sample_double_ops (sample_clip (Rational 10) (Rational 3) 0 True)
     (Rational 6) = sample_clip (Rational 6) (Rational 3) 0 True \<and>
   set_length_and_media_in sample_double_ops (sample_clip (Rational 10) (Rational 3) 0 True)
     (Rational 6) = sample_clip (Rational 6) (Rational 3) 0 True \<and>
   set_length_and_media_in sample_double_ops (sample_clip (Rational 10) (Rational 3) 0 False)
     (Rational 6) = sample_clip (Rational 6) (Rational 7) 0 False \<and>
   set_length_and_media_out sample_double_ops (sample_clip (Rational 10) (Rational 3) 0 False)
     (Rational 6) = sample_clip (Rational 6) (Rational 3) 0 False"
  using trim_adjusts_media_in [of "Rational 6" "sample_clip (Rational 10) (Rational 3) 1 True"
      sample_double_ops]
    trim_adjusts_media_in [of "Rational 6" "sample_clip (Rational 10) (Rational 3) 0 True"
      sample_double_ops]
    trim_adjusts_media_in [of "Rational 6" "sample_clip (Rational 10) (Rational 3) 0 False"
      sample_double_ops]
  by (simp add: sample_clip_def SequenceToMediaTime_def RATIONAL_MIN_def RATIONAL_MAX_def
      qIsNull_def qFuzzyCompare_def)

text \<open>
  C10. Either setter called with the clip's current length returns the clip as it is:
  \<open>media_in\<close> is not recomputed and no field changes, whatever the reverse flag.
\<close>

theorem equal_length_is_noop:
  "set_length_and_media_out fp c (clip_length c) = c \<and>
   set_length_and_media_in fp c (clip_length c) = c"
  by (simp add: set_length_and_media_out_def set_length_and_media_in_def)

theorem equal_length_is_noop_witness:
  "set_length_and_media_out sample_double_ops (sample_clip (Rational 10) (Rational 3) 2 True)
     (Rational 10) = sample_clip (Rational 10) (Rational 3) 2 True \<and>
   set_length_and_media_in sample_double_ops (sample_clip (Rational 10) (Rational 3) 2 False)
     (Rational 10) = sample_clip (Rational 10) (Rational 3) 2 False"
  using equal_length_is_noop [of sample_double_ops "sample_clip (Rational 10) (Rational 3) 2 True"]
    equal_length_is_noop [of sample_double_ops "sample_clip (Rational 10) (Rational 3) 2 False"]
  by (simp add: sample_clip_def)


end
